theory Spec2Isabelle
  imports Main "HOL-Library.Char_ord" "HOL-Library.List_Lexorder" "HOL-Library.Multiset"
    "HOL-Library.Sublist"
begin

section \<open>Shared schema\<close>

text \<open>
  The schema module declares \<^verbatim>\<open>priorityEnum = z.enum(["low", "medium", "high"])\<close> and the
  table \<^verbatim>\<open>todos\<close> with the columns \<^verbatim>\<open>id\<close>, \<^verbatim>\<open>text\<close>, \<^verbatim>\<open>completed\<close>, \<^verbatim>\<open>priority\<close> and the
  nullable \<^verbatim>\<open>category\<close>. A JavaScript string is a sequence of code units; it is modelled as
  a \<open>string\<close>, and \<^verbatim>\<open>null\<close> in the nullable column is \<open>None\<close>. Field names carry a prefix
  because \<open>id\<close> and \<open>text\<close> are taken in Isabelle.
\<close>

datatype Priority = Low | Medium | High

record User =
  user_id :: string
  username :: string
  password :: string

record InsertUser =
  ins_username :: string
  ins_password :: string

record Todo =
  todo_id :: string
  todo_text :: string
  todo_completed :: bool
  todo_priority :: Priority
  todo_category :: "string option"

text \<open>
  \<^verbatim>\<open>InsertTodo\<close>: \<^verbatim>\<open>text\<close> is required; the other keys may be missing (\<open>None\<close>), and
  \<^verbatim>\<open>category\<close> may also be present with the value \<^verbatim>\<open>null\<close> (\<open>Some None\<close>).
\<close>

record InsertTodo =
  ins_text :: string
  ins_completed :: "bool option"
  ins_priority :: "Priority option"
  ins_category :: "string option option"

text \<open>
  The body of an update request, and the object handed to \<^verbatim>\<open>updateTodo\<close>. Each key is
  either missing (\<open>None\<close>) or present with a value. A body may carry an \<^verbatim>\<open>id\<close> key; the
  declared type \<^verbatim>\<open>UpdateTodo\<close> of the parsed data, which comes from
  \<^verbatim>\<open>createInsertSchema(todos).partial().omit({ id: true })\<close>, has none: its objects are
  the records with \<open>upd_id = None\<close>.
\<close>

record UpdateTodo =
  upd_id :: "string option"
  upd_text :: "string option"
  upd_completed :: "bool option"
  upd_priority :: "Priority option"
  upd_category :: "string option option"

section \<open>The JavaScript containers used by the store\<close>

text \<open>
  A \<^verbatim>\<open>Map\<close> iterates in insertion order: \<^verbatim>\<open>set\<close> on a key already present replaces the
  value where the key stands, \<^verbatim>\<open>set\<close> on a new key appends, \<^verbatim>\<open>delete\<close> reports whether
  the key was there. It is an association list in insertion order.
\<close>

type_synonym ('k, 'v) js_map = "('k \<times> 'v) list"

fun map_get :: "('k, 'v) js_map \<Rightarrow> 'k \<Rightarrow> 'v option" where
  "map_get [] k = None"
| "map_get ((k', v) # m) k = (if k' = k then Some v else map_get m k)"

definition map_has :: "('k, 'v) js_map \<Rightarrow> 'k \<Rightarrow> bool" where
  "map_has m k = (map_get m k \<noteq> None)"

fun map_set :: "'k \<Rightarrow> 'v \<Rightarrow> ('k, 'v) js_map \<Rightarrow> ('k, 'v) js_map" where
  "map_set k v [] = [(k, v)]"
| "map_set k v ((k', v') # m) = (if k' = k then (k, v) # m else (k', v') # map_set k v m)"

definition map_delete :: "'k \<Rightarrow> ('k, 'v) js_map \<Rightarrow> ('k, 'v) js_map" where
  "map_delete k m = filter (\<lambda>e. fst e \<noteq> k) m"

definition map_values :: "('k, 'v) js_map \<Rightarrow> 'v list" where
  "map_values m = map snd m"

text \<open>A \<^verbatim>\<open>Set\<close> keeps its members in insertion order and ignores a second \<^verbatim>\<open>add\<close>.\<close>

definition set_add :: "'a \<Rightarrow> 'a list \<Rightarrow> 'a list" where
  "set_add x s = (if x \<in> set s then s else s @ [x])"

text \<open>
  \<^verbatim>\<open>Array.prototype.sort(compareFn)\<close> is a stable sort: with a consistent comparator the
  result is the one ordered arrangement in which elements that compare equal keep their
  order. Insertion from the right computes it: \<open>x\<close> stood before every element of the
  list it is inserted into, and moves behind \<open>y\<close> only when \<open>compareFn(x, y) > 0\<close>.
\<close>

fun insert_by :: "('a \<Rightarrow> 'a \<Rightarrow> int) \<Rightarrow> 'a \<Rightarrow> 'a list \<Rightarrow> 'a list" where
  "insert_by cmp x [] = [x]"
| "insert_by cmp x (y # ys) = (if cmp x y \<le> 0 then x # y # ys else y # insert_by cmp x ys)"

definition array_sort :: "('a \<Rightarrow> 'a \<Rightarrow> int) \<Rightarrow> 'a list \<Rightarrow> 'a list" where
  "array_sort cmp xs = foldr (insert_by cmp) xs []"

text \<open>
  \<^verbatim>\<open>sort()\<close> without a comparator orders strings by their code units, a proper prefix
  first: the lexicographic order of \<open>string\<close>.
\<close>

definition array_sort_default :: "string list \<Rightarrow> string list" where
  "array_sort_default xs = sort xs"

text \<open>\<^verbatim>\<open>a ?? b\<close> is \<open>b\<close> when \<open>a\<close> is missing or \<^verbatim>\<open>null\<close>.\<close>

definition nullish :: "'a option \<Rightarrow> 'a \<Rightarrow> 'a" where
  "nullish a b = (case a of None \<Rightarrow> b | Some v \<Rightarrow> v)"

definition nullish_null :: "'a option option \<Rightarrow> 'a option" where
  "nullish_null a = (case a of None \<Rightarrow> None | Some v \<Rightarrow> v)"

section \<open>MemStorage\<close>

record MemStorage =
  users :: "(string, User) js_map"
  todos :: "(string, Todo) js_map"

definition newMemStorage :: MemStorage where
  "newMemStorage = \<lparr>users = [], todos = []\<rparr>"

text \<open>
  Every method is a function of the store; a method that writes returns the new store
  beside its result. \<^verbatim>\<open>randomUUID()\<close> is the caller's: its result is the first argument
  of \<open>createUser\<close> and \<open>createTodo\<close>.
\<close>

definition getUser :: "MemStorage \<Rightarrow> string \<Rightarrow> User option" where
  "getUser s i = map_get (users s) i"

definition getUserByUsername :: "MemStorage \<Rightarrow> string \<Rightarrow> User option" where
  "getUserByUsername s name = find (\<lambda>user. username user = name) (map_values (users s))"

definition createUser :: "string \<Rightarrow> InsertUser \<Rightarrow> MemStorage \<Rightarrow> User \<times> MemStorage" where
  "createUser uuid insertUser s =
     (let user = \<lparr>user_id = uuid, username = ins_username insertUser,
                  password = ins_password insertUser\<rparr>
      in (user, s\<lparr>users := map_set uuid user (users s)\<rparr>))"

definition getAllTodos :: "MemStorage \<Rightarrow> Todo list" where
  "getAllTodos s = map_values (todos s)"

definition getTodo :: "MemStorage \<Rightarrow> string \<Rightarrow> Todo option" where
  "getTodo s i = map_get (todos s) i"

definition createTodo :: "string \<Rightarrow> InsertTodo \<Rightarrow> MemStorage \<Rightarrow> Todo \<times> MemStorage" where
  "createTodo uuid insertTodo s =
     (let todo = \<lparr>todo_id = uuid,
                  todo_text = ins_text insertTodo,
                  todo_completed = nullish (ins_completed insertTodo) False,
                  todo_priority = nullish (ins_priority insertTodo) Medium,
                  todo_category = nullish_null (ins_category insertTodo)\<rparr>
      in (todo, s\<lparr>todos := map_set uuid todo (todos s)\<rparr>))"

text \<open>
  \<^verbatim>\<open>{ ...todo, ...updates }\<close>: every key of \<^verbatim>\<open>updates\<close> overwrites the key of the same
  name, every other key keeps the value of \<^verbatim>\<open>todo\<close>.
\<close>

definition spread :: "Todo \<Rightarrow> UpdateTodo \<Rightarrow> Todo" where
  "spread todo updates =
     \<lparr>todo_id = (case upd_id updates of None \<Rightarrow> todo_id todo | Some v \<Rightarrow> v),
      todo_text = (case upd_text updates of None \<Rightarrow> todo_text todo | Some v \<Rightarrow> v),
      todo_completed =
        (case upd_completed updates of None \<Rightarrow> todo_completed todo | Some v \<Rightarrow> v),
      todo_priority =
        (case upd_priority updates of None \<Rightarrow> todo_priority todo | Some v \<Rightarrow> v),
      todo_category =
        (case upd_category updates of None \<Rightarrow> todo_category todo | Some v \<Rightarrow> v)\<rparr>"

definition updateTodo :: "string \<Rightarrow> UpdateTodo \<Rightarrow> MemStorage \<Rightarrow> Todo option \<times> MemStorage" where
  "updateTodo i updates s =
     (case map_get (todos s) i of
        None \<Rightarrow> (None, s)
      | Some todo \<Rightarrow>
          (let updatedTodo = spread todo updates
           in (Some updatedTodo, s\<lparr>todos := map_set i updatedTodo (todos s)\<rparr>)))"

definition deleteTodo :: "string \<Rightarrow> MemStorage \<Rightarrow> bool \<times> MemStorage" where
  "deleteTodo i s = (map_has (todos s) i, s\<lparr>todos := map_delete i (todos s)\<rparr>)"

text \<open>
  The loop of \<^verbatim>\<open>getCategories\<close> adds \<^verbatim>\<open>todo.category\<close> when it is truthy: neither
  \<^verbatim>\<open>null\<close> nor the empty string.
\<close>

definition collect_category :: "Todo \<Rightarrow> string list \<Rightarrow> string list" where
  "collect_category todo categories =
     (case todo_category todo of
        None \<Rightarrow> categories
      | Some c \<Rightarrow> if c \<noteq> [] then set_add c categories else categories)"

definition getCategories :: "MemStorage \<Rightarrow> string list" where
  "getCategories s = array_sort_default (fold collect_category (map_values (todos s)) [])"

section \<open>The update route\<close>

text \<open>
  \<^verbatim>\<open>app.patch("/api/todos/:id")\<close> is the one caller of \<^verbatim>\<open>updateTodo\<close>: it parses the body
  with \<^verbatim>\<open>updateTodoSchema.safeParse\<close>, answers 400 when the parse fails, hands the parsed
  data to \<^verbatim>\<open>storage.updateTodo\<close>, and answers 404 when that returns nothing and the
  updated task otherwise. The shape of \<^verbatim>\<open>updateTodoSchema\<close> has the keys \<^verbatim>\<open>text\<close>,
  \<^verbatim>\<open>completed\<close>, \<^verbatim>\<open>priority\<close> and \<^verbatim>\<open>category\<close>; \<^verbatim>\<open>id\<close> is omitted, and the schema is
  neither strict nor passthrough, so the parsed data holds the keys of the shape only.
  The values a record of type \<open>UpdateTodo\<close> gives to those four keys are well-shaped,
  so on them the parse succeeds.
\<close>

definition updateTodoSchema_safeParse :: "UpdateTodo \<Rightarrow> UpdateTodo option" where
  "updateTodoSchema_safeParse body = Some (body\<lparr>upd_id := None\<rparr>)"

datatype PatchResponse = Status200 Todo | Status400 | Status404

definition patchTodo :: "string \<Rightarrow> UpdateTodo \<Rightarrow> MemStorage \<Rightarrow> PatchResponse \<times> MemStorage" where
  "patchTodo i body s =
     (case updateTodoSchema_safeParse body of
        None \<Rightarrow> (Status400, s)
      | Some parsed \<Rightarrow>
          (case updateTodo i parsed s of
             (None, s') \<Rightarrow> (Status404, s')
           | (Some todo, s') \<Rightarrow> (Status200 todo, s')))"

section \<open>The query of the home page\<close>

datatype FilterType = FilterAll | FilterActive | FilterCompleted

datatype SortType = SortNewest | SortOldest | SortPriority | SortAlphabetical

definition priorityOrder :: "Priority \<Rightarrow> int" where
  "priorityOrder p = (case p of High \<Rightarrow> 0 | Medium \<Rightarrow> 1 | Low \<Rightarrow> 2)"

text \<open>
  \<^verbatim>\<open>toLowerCase\<close>, \<^verbatim>\<open>trim\<close> and \<^verbatim>\<open>localeCompare\<close> belong to the JavaScript runtime and
  depend on Unicode tables and on the locale. They are parameters of the query;
  \<^verbatim>\<open>includes\<close> (here \<open>includes_str\<close>) is the search for a contiguous run of code units.
\<close>

record StringRuntime =
  toLowerCase :: "string \<Rightarrow> string"
  trim :: "string \<Rightarrow> string"
  localeCompare :: "string \<Rightarrow> string \<Rightarrow> int"

fun startsWith :: "string \<Rightarrow> string \<Rightarrow> bool" where
  "startsWith s [] = True"
| "startsWith [] (q # qs) = False"
| "startsWith (c # cs) (q # qs) = (c = q \<and> startsWith cs qs)"

fun includes_str :: "string \<Rightarrow> string \<Rightarrow> bool" where
  "includes_str [] q = (q = [])"
| "includes_str (c # cs) q = (startsWith (c # cs) q \<or> includes_str cs q)"

definition statusFiltered :: "FilterType \<Rightarrow> Todo list \<Rightarrow> Todo list" where
  "statusFiltered flt result =
     (if flt = FilterActive then filter (\<lambda>t. \<not> todo_completed t) result
      else if flt = FilterCompleted then filter (\<lambda>t. todo_completed t) result
      else result)"

definition searchFiltered :: "StringRuntime \<Rightarrow> string \<Rightarrow> Todo list \<Rightarrow> Todo list" where
  "searchFiltered rt searchQuery result =
     (if trim rt searchQuery \<noteq> [] then
        (let query = toLowerCase rt searchQuery
         in filter (\<lambda>t. includes_str (toLowerCase rt (todo_text t)) query \<or>
                        (case todo_category t of
                           None \<Rightarrow> False
                         | Some c \<Rightarrow> c \<noteq> [] \<and> includes_str (toLowerCase rt c) query)) result)
      else result)"

definition categoryFiltered :: "string \<Rightarrow> Todo list \<Rightarrow> Todo list" where
  "categoryFiltered categoryFilter result =
     (if categoryFilter \<noteq> ''all''
      then filter (\<lambda>t. todo_category t = Some categoryFilter) result
      else result)"

definition compareTodos :: "StringRuntime \<Rightarrow> SortType \<Rightarrow> Todo \<Rightarrow> Todo \<Rightarrow> int" where
  "compareTodos rt sortBy a b =
     (case sortBy of
        SortOldest \<Rightarrow> 0
      | SortPriority \<Rightarrow> priorityOrder (todo_priority a) - priorityOrder (todo_priority b)
      | SortAlphabetical \<Rightarrow> localeCompare rt (todo_text a) (todo_text b)
      | SortNewest \<Rightarrow> 0)"

definition sortedTodos :: "StringRuntime \<Rightarrow> SortType \<Rightarrow> Todo list \<Rightarrow> Todo list" where
  "sortedTodos rt sortBy result =
     (let result = array_sort (compareTodos rt sortBy) result
      in if sortBy = SortNewest then rev result else result)"

text \<open>
  The three filters of \<^verbatim>\<open>filteredAndSortedTodos\<close>, in the order of the source, on the
  array \<^verbatim>\<open>todos\<close> that the page fetched (\<open>todoList\<close>; \<open>flt\<close> is \<^verbatim>\<open>filter\<close>).
\<close>

definition filteredTodos ::
  "StringRuntime \<Rightarrow> Todo list \<Rightarrow> FilterType \<Rightarrow> string \<Rightarrow> string \<Rightarrow> Todo list" where
  "filteredTodos rt todoList flt searchQuery categoryFilter =
     categoryFiltered categoryFilter
       (searchFiltered rt searchQuery (statusFiltered flt todoList))"

definition filteredAndSortedTodos ::
  "StringRuntime \<Rightarrow> Todo list \<Rightarrow> FilterType \<Rightarrow> string \<Rightarrow> SortType \<Rightarrow> string \<Rightarrow> Todo list" where
  "filteredAndSortedTodos rt todoList flt searchQuery sortBy categoryFilter =
     sortedTodos rt sortBy (filteredTodos rt todoList flt searchQuery categoryFilter)"

section \<open>Concrete stores and snapshots\<close>

text \<open>The inputs at which the theorems below are evaluated.\<close>

definition buyMilk :: InsertTodo where
  "buyMilk = \<lparr>ins_text = ''Buy milk'', ins_completed = None, ins_priority = None,
              ins_category = None\<rparr>"

definition callBob :: InsertTodo where
  "callBob = \<lparr>ins_text = ''Call Bob'', ins_completed = Some True, ins_priority = Some High,
              ins_category = Some (Some ''Work'')\<rparr>"

definition categorised :: "string option \<Rightarrow> InsertTodo" where
  "categorised c = \<lparr>ins_text = ''Task'', ins_completed = None, ins_priority = None,
                    ins_category = Some c\<rparr>"

definition oneTodo :: MemStorage where
  "oneTodo = snd (createTodo ''1'' buyMilk newMemStorage)"

definition twoTodos :: MemStorage where
  "twoTodos = snd (createTodo ''2'' callBob oneTodo)"

definition fourTodos :: MemStorage where
  "fourTodos =
     snd (createTodo ''4'' (categorised None)
       (snd (createTodo ''3'' (categorised (Some ''Work''))
         (snd (createTodo ''2'' (categorised (Some ''home''))
           (snd (createTodo ''1'' (categorised (Some ''Work'')) newMemStorage)))))))"

definition emptyCategory :: MemStorage where
  "emptyCategory = snd (createTodo ''1'' (categorised (Some '''')) newMemStorage)"

text \<open>
  A runtime for text made of lower-case ASCII letters and digits only: there
  \<^verbatim>\<open>toLowerCase\<close> and \<^verbatim>\<open>trim\<close> change nothing and \<^verbatim>\<open>localeCompare\<close> follows the code
  units.
\<close>

definition lowerAsciiRuntime :: StringRuntime where
  "lowerAsciiRuntime =
     \<lparr>toLowerCase = (\<lambda>s. s), trim = (\<lambda>s. s),
      localeCompare = (\<lambda>a b. if a < b then - 1 else if a = b then 0 else 1)\<rparr>"

definition taskA :: Todo where
  "taskA = \<lparr>todo_id = ''a'', todo_text = ''alpha'', todo_completed = False,
            todo_priority = High, todo_category = None\<rparr>"

definition taskB :: Todo where
  "taskB = \<lparr>todo_id = ''b'', todo_text = ''bravo'', todo_completed = False,
            todo_priority = Medium, todo_category = Some ''home''\<rparr>"

definition taskC :: Todo where
  "taskC = \<lparr>todo_id = ''c'', todo_text = ''charlie'', todo_completed = True,
            todo_priority = High, todo_category = Some ''all''\<rparr>"

lemmas store_defs = buyMilk_def callBob_def categorised_def oneTodo_def twoTodos_def
  fourTodos_def emptyCategory_def newMemStorage_def createTodo_def nullish_def
  nullish_null_def Let_def

lemmas query_defs = filteredAndSortedTodos_def filteredTodos_def statusFiltered_def
  searchFiltered_def categoryFiltered_def sortedTodos_def compareTodos_def array_sort_def
  priorityOrder_def lowerAsciiRuntime_def taskA_def taskB_def taskC_def Let_def

section \<open>The map operations\<close>

text \<open>
  The keys of a \<^verbatim>\<open>Map\<close> are pairwise different; the two writing operations keep the
  association list so.
\<close>

lemma keys_map_set: "fst ` set (map_set k v m) = insert k (fst ` set m)"
proof (induction m)
  case Nil
  show ?case by simp
next
  case (Cons e m)
  obtain k' v' where e: "e = (k', v')" by (cases e)
  show ?case
  proof (cases "k' = k")
    case True
    then show ?thesis by (simp add: e)
  next
    case False
    then show ?thesis using Cons.IH by (simp add: e insert_commute)
  qed
qed

lemma distinct_map_set: "distinct (map fst m) \<Longrightarrow> distinct (map fst (map_set k v m))"
proof (induction m)
  case Nil
  show ?case by simp
next
  case (Cons e m)
  obtain k' v' where e: "e = (k', v')" by (cases e)
  show ?case
  proof (cases "k' = k")
    case True
    then show ?thesis using Cons.prems by (simp add: e)
  next
    case False
    then show ?thesis using Cons by (simp add: e keys_map_set)
  qed
qed

lemma distinct_map_delete: "distinct (map fst m) \<Longrightarrow> distinct (map fst (map_delete k m))"
  by (simp add: map_delete_def distinct_map_filter)

lemma map_get_map_set_same: "map_get (map_set k v m) k = Some v"
  by (induction m) auto

lemma map_set_keys: "map_get m k \<noteq> None \<Longrightarrow> map fst (map_set k v m) = map fst m"
  by (induction m) auto

lemma map_set_ids:
  "map_get m k = Some t \<Longrightarrow> todo_id v = todo_id t \<Longrightarrow>
   map todo_id (map_values (map_set k v m)) = map todo_id (map_values m)"
  by (induction m) (auto simp: map_values_def split: if_splits)

lemma map_get_map_delete_same: "map_get (map_delete k m) k = None"
  by (induction m) (auto simp: map_delete_def)

lemma map_get_map_delete_other: "k' \<noteq> k \<Longrightarrow> map_get (map_delete k m) k' = map_get m k'"
  by (induction m) (auto simp: map_delete_def)

lemma map_delete_absent: "map_get m k = None \<Longrightarrow> map_delete k m = m"
  by (induction m) (auto simp: map_delete_def split: if_splits)

section \<open>Creating a task and reading it back\<close>

text \<open>
  C8. For every creation payload, every id drawn and every store, reading the id of the
  task that \<open>createTodo\<close> returned, from the store it left, gives that same task.
\<close>

theorem getTodo_createTodo:
  "getTodo (snd (createTodo uuid insertTodo s)) (todo_id (fst (createTodo uuid insertTodo s)))
     = Some (fst (createTodo uuid insertTodo s))"
  by (simp add: getTodo_def createTodo_def Let_def map_get_map_set_same)

section \<open>Updating a task\<close>

text \<open>
  C4. When no task is stored under the id \<open>x\<close>, \<open>updateTodo x u\<close> returns the absent
  result \<open>None\<close> for every payload \<open>u\<close> and hands back the store it was given. The
  function is total and has no error result.
\<close>

theorem updateTodo_absent:
  "getTodo s x = None \<Longrightarrow> updateTodo x u s = (None, s)"
  by (simp add: getTodo_def updateTodo_def)

theorem updateTodo_absent_witness:
  "getTodo newMemStorage ''7'' = None \<and>
   updateTodo ''7'' \<lparr>upd_id = None, upd_text = Some ''x'', upd_completed = None,
                      upd_priority = None, upd_category = None\<rparr> newMemStorage
     = (None, newMemStorage)"
proof -
  have h: "getTodo newMemStorage ''7'' = None"
    by (simp add: getTodo_def newMemStorage_def)
  show ?thesis using h updateTodo_absent [OF h] by simp
qed

text \<open>
  C2. Let \<open>t\<close> be the task stored under \<open>k\<close> and \<open>u\<close> a payload without an \<^verbatim>\<open>id\<close> key.
  Then \<open>updateTodo k u\<close> returns a task \<open>t'\<close> and stores it under \<open>k\<close>; each of
  \<^verbatim>\<open>text\<close>, \<^verbatim>\<open>completed\<close>, \<^verbatim>\<open>priority\<close> and \<^verbatim>\<open>category\<close> has in \<open>t'\<close> the value given in
  \<open>u\<close> when \<open>u\<close> has the key, and the value it had in \<open>t\<close> when \<open>u\<close> has not; the
  \<^verbatim>\<open>id\<close> is that of \<open>t\<close>.
\<close>

theorem updateTodo_merge:
  assumes "getTodo s k = Some t" and "upd_id u = None"
  shows "\<exists>t'. fst (updateTodo k u s) = Some t' \<and>
              getTodo (snd (updateTodo k u s)) k = Some t' \<and>
              todo_text t' = (case upd_text u of Some v \<Rightarrow> v | None \<Rightarrow> todo_text t) \<and>
              todo_completed t' =
                (case upd_completed u of Some v \<Rightarrow> v | None \<Rightarrow> todo_completed t) \<and>
              todo_priority t' =
                (case upd_priority u of Some v \<Rightarrow> v | None \<Rightarrow> todo_priority t) \<and>
              todo_category t' =
                (case upd_category u of Some v \<Rightarrow> v | None \<Rightarrow> todo_category t) \<and>
              todo_id t' = todo_id t"
  using assms
  by (simp add: getTodo_def updateTodo_def Let_def map_get_map_set_same spread_def)

theorem updateTodo_merge_witness:
  "getTodo twoTodos ''2'' =
     Some \<lparr>todo_id = ''2'', todo_text = ''Call Bob'', todo_completed = True,
           todo_priority = High, todo_category = Some ''Work''\<rparr> \<and>
   fst (updateTodo ''2'' \<lparr>upd_id = None, upd_text = Some ''Call Al'', upd_completed = None,
                           upd_priority = None, upd_category = Some None\<rparr> twoTodos) =
     Some \<lparr>todo_id = ''2'', todo_text = ''Call Al'', todo_completed = True,
           todo_priority = High, todo_category = None\<rparr>"
proof -
  let ?t = "\<lparr>todo_id = ''2'', todo_text = ''Call Bob'', todo_completed = True,
             todo_priority = High, todo_category = Some ''Work''\<rparr>"
  let ?u = "\<lparr>upd_id = None, upd_text = Some ''Call Al'', upd_completed = None,
             upd_priority = None, upd_category = Some None\<rparr>"
  have h1: "getTodo twoTodos ''2'' = Some ?t"
    by (simp add: getTodo_def store_defs)
  have h2: "upd_id ?u = None" by simp
  from updateTodo_merge [OF h1 h2] obtain t' where
    "fst (updateTodo ''2'' ?u twoTodos) = Some t'"
    "todo_text t' = ''Call Al''" "todo_completed t' = True" "todo_priority t' = High"
    "todo_category t' = None" "todo_id t' = ''2''"
    by auto
  then show ?thesis using h1 by (cases t') simp
qed

text \<open>
  C1. Let \<open>t\<close> be the task stored under \<open>k\<close>. For every body \<open>u\<close> of an update
  request, with or without an \<^verbatim>\<open>id\<close> key, the update answers with a task that is the
  one it leaves under \<open>k\<close>, and that task has the \<^verbatim>\<open>id\<close> of \<open>t\<close>; whatever \<^verbatim>\<open>id\<close> the
  body carries, the answer and the store are the same, so a supplied \<^verbatim>\<open>id\<close> is ignored.
\<close>

theorem patchTodo_id_kept:
  assumes "getTodo s k = Some t"
  shows "(\<forall>i. patchTodo k (u\<lparr>upd_id := i\<rparr>) s = patchTodo k u s) \<and>
         (\<exists>t'. fst (patchTodo k u s) = Status200 t' \<and>
               getTodo (snd (patchTodo k u s)) k = Some t' \<and>
               todo_id t' = todo_id t)"
  using assms
  by (simp add: patchTodo_def updateTodoSchema_safeParse_def getTodo_def updateTodo_def
        Let_def map_get_map_set_same spread_def)

theorem patchTodo_id_kept_witness:
  "getTodo oneTodo ''1'' =
     Some \<lparr>todo_id = ''1'', todo_text = ''Buy milk'', todo_completed = False,
           todo_priority = Medium, todo_category = None\<rparr> \<and>
   getTodo (snd (patchTodo ''1'' \<lparr>upd_id = Some ''2'', upd_text = None,
                                  upd_completed = Some True, upd_priority = None,
                                  upd_category = None\<rparr> oneTodo)) ''1'' =
     Some \<lparr>todo_id = ''1'', todo_text = ''Buy milk'', todo_completed = True,
           todo_priority = Medium, todo_category = None\<rparr>"
proof -
  let ?t = "\<lparr>todo_id = ''1'', todo_text = ''Buy milk'', todo_completed = False,
             todo_priority = Medium, todo_category = None\<rparr>"
  let ?u = "\<lparr>upd_id = Some ''2'', upd_text = None, upd_completed = Some True,
             upd_priority = None, upd_category = None\<rparr>"
  have h: "getTodo oneTodo ''1'' = Some ?t"
    by (simp add: getTodo_def store_defs)
  have stored: "getTodo (snd (patchTodo ''1'' ?u oneTodo)) ''1'' =
     Some \<lparr>todo_id = ''1'', todo_text = ''Buy milk'', todo_completed = True,
           todo_priority = Medium, todo_category = None\<rparr>"
    by (simp add: patchTodo_def updateTodoSchema_safeParse_def getTodo_def updateTodo_def
          spread_def store_defs)
  show ?thesis using h stored patchTodo_id_kept [OF h, of ?u] by simp
qed

section \<open>Deleting a task\<close>

text \<open>
  C5. \<open>deleteTodo x\<close> returns \<open>True\<close> exactly when a task is stored under \<open>x\<close>;
  afterwards none is stored under \<open>x\<close> and every other id reads as before. When no
  task is stored under \<open>x\<close> it returns \<open>False\<close> and the store is unchanged; so a second
  \<open>deleteTodo x\<close> right after the first returns \<open>False\<close> and changes nothing.
\<close>

theorem deleteTodo_result:
  "fst (deleteTodo x s) = (getTodo s x \<noteq> None) \<and>
   getTodo (snd (deleteTodo x s)) x = None \<and>
   (\<forall>y. y \<noteq> x \<longrightarrow> getTodo (snd (deleteTodo x s)) y = getTodo s y) \<and>
   (getTodo s x = None \<longrightarrow> deleteTodo x s = (False, s)) \<and>
   deleteTodo x (snd (deleteTodo x s)) = (False, snd (deleteTodo x s))"
  by (simp add: deleteTodo_def getTodo_def map_has_def map_get_map_delete_same
        map_get_map_delete_other map_delete_absent)

theorem deleteTodo_result_witness:
  "getTodo twoTodos ''1'' \<noteq> None \<and>
   fst (deleteTodo ''1'' twoTodos) \<and>
   ''2'' \<noteq> ''1'' \<and>
   getTodo (snd (deleteTodo ''1'' twoTodos)) ''2'' = getTodo twoTodos ''2'' \<and>
   getTodo newMemStorage ''1'' = None \<and>
   deleteTodo ''1'' newMemStorage = (False, newMemStorage) \<and>
   fst (deleteTodo ''1'' (snd (deleteTodo ''1'' twoTodos))) = False"
proof -
  have stored: "getTodo twoTodos ''1'' \<noteq> None"
    by (simp add: getTodo_def store_defs)
  have absent: "getTodo newMemStorage ''1'' = None"
    by (simp add: getTodo_def newMemStorage_def)
  have other: "''2'' \<noteq> ''1''" by simp
  show ?thesis
    using stored absent other deleteTodo_result [of "''1''" twoTodos]
      deleteTodo_result [of "''1''" newMemStorage]
    by simp
qed

section \<open>The categories in use\<close>

lemma set_collect_category:
  "set (collect_category t acc) = set acc \<union> {c. c \<noteq> [] \<and> todo_category t = Some c}"
  by (auto simp: collect_category_def set_add_def split: option.splits)

lemma set_fold_collect:
  "set (fold collect_category ts acc) =
     set acc \<union> {c. c \<noteq> [] \<and> (\<exists>t\<in>set ts. todo_category t = Some c)}"
proof (induction ts arbitrary: acc)
  case Nil
  then show ?case by simp
next
  case (Cons t ts)
  have "set (fold collect_category (t # ts) acc) =
          set (collect_category t acc) \<union>
            {c. c \<noteq> [] \<and> (\<exists>t\<in>set ts. todo_category t = Some c)}"
    by (simp only: fold_simps Cons.IH)
  then show ?case
    by (auto simp: set_collect_category)
qed

lemma distinct_collect_category: "distinct acc \<Longrightarrow> distinct (collect_category t acc)"
  by (simp add: collect_category_def set_add_def split: option.splits)

lemma distinct_fold_collect:
  "distinct acc \<Longrightarrow> distinct (fold collect_category ts acc)"
proof (induction ts arbitrary: acc)
  case Nil
  then show ?case by simp
next
  case (Cons t ts)
  from Cons.prems have "distinct (collect_category t acc)"
    by (rule distinct_collect_category)
  then have "distinct (fold collect_category ts (collect_category t acc))"
    by (rule Cons.IH)
  then show ?case by (simp only: fold_simps)
qed

text \<open>
  C3, as the code has it. \<open>getCategories\<close> returns, in ascending order of the code
  units and without repetition, exactly the categories of the stored tasks that are
  neither \<^verbatim>\<open>null\<close> nor the empty string; when the stored categories are
  \<^verbatim>\<open>["Work", "home", "Work", null]\<close> it returns \<^verbatim>\<open>["Work", "home"]\<close>.
\<close>

theorem getCategories_sorted_distinct:
  "sorted (getCategories s) \<and> distinct (getCategories s) \<and>
   set (getCategories s) =
     {c. c \<noteq> [] \<and> (\<exists>t\<in>set (getAllTodos s). todo_category t = Some c)} \<and>
   (map todo_category (getAllTodos s) = [Some ''Work'', Some ''home'', Some ''Work'', None]
      \<longrightarrow> getCategories s = [''Work'', ''home''])"
proof -
  have a: "sorted (getCategories s)"
    by (simp add: getCategories_def array_sort_default_def)
  have b: "distinct (getCategories s)"
    by (simp add: getCategories_def array_sort_default_def distinct_fold_collect)
  have c: "set (getCategories s) =
     {c. c \<noteq> [] \<and> (\<exists>t\<in>set (getAllTodos s). todo_category t = Some c)}"
    by (simp add: getCategories_def array_sort_default_def set_fold_collect getAllTodos_def)
  have d: "getCategories s = [''Work'', ''home'']"
    if h: "map todo_category (getAllTodos s) = [Some ''Work'', Some ''home'', Some ''Work'', None]"
  proof -
    from h obtain t1 t2 t3 t4 where ts: "map_values (todos s) = [t1, t2, t3, t4]"
      and cs: "todo_category t1 = Some ''Work''" "todo_category t2 = Some ''home''"
        "todo_category t3 = Some ''Work''" "todo_category t4 = None"
      by (auto simp: getAllTodos_def map_eq_Cons_conv)
    show ?thesis
      by (simp add: getCategories_def array_sort_default_def ts cs collect_category_def
            set_add_def)
  qed
  from a b c d show ?thesis by blast
qed

theorem getCategories_sorted_distinct_witness:
  "map todo_category (getAllTodos fourTodos) = [Some ''Work'', Some ''home'', Some ''Work'', None]
   \<and> getCategories fourTodos = [''Work'', ''home'']"
proof -
  have h: "map todo_category (getAllTodos fourTodos)
             = [Some ''Work'', Some ''home'', Some ''Work'', None]"
    by (simp add: getAllTodos_def map_values_def store_defs)
  show ?thesis using h getCategories_sorted_distinct [of fourTodos] by simp
qed

text \<open>
  C3, as the claim states it, fails: a task whose category is the empty string has a
  category that is not \<^verbatim>\<open>null\<close>, and \<open>getCategories\<close> leaves it out.
\<close>

theorem getCategories_counterexample:
  "map todo_category (getAllTodos emptyCategory) = [Some ''''] \<and>
   getCategories emptyCategory = []"
  by (simp add: getAllTodos_def map_values_def getCategories_def array_sort_default_def
        collect_category_def store_defs)

section \<open>Sorting the filtered snapshot\<close>

lemma array_sort_Nil: "array_sort cmp [] = []"
  by (simp add: array_sort_def)

lemma array_sort_Cons: "array_sort cmp (x # xs) = insert_by cmp x (array_sort cmp xs)"
  by (simp add: array_sort_def)

lemma insert_by_ties: "insert_by (\<lambda>a b. 0) x ys = x # ys"
  by (cases ys) simp_all

lemma array_sort_ties: "array_sort (\<lambda>a b. 0) xs = xs"
  by (induction xs) (simp_all add: array_sort_Nil array_sort_Cons insert_by_ties)

lemma mset_insert_by: "mset (insert_by cmp x ys) = add_mset x (mset ys)"
  by (induction ys) auto

lemma mset_array_sort: "mset (array_sort cmp xs) = mset xs"
  by (induction xs) (simp_all add: array_sort_Nil array_sort_Cons mset_insert_by)

text \<open>A comparator that subtracts two keys sorts by the key, as \<open>sort_key\<close> does.\<close>

lemma insert_by_key: "insert_by (\<lambda>a b. f a - f b) x ys = insort_key f x ys"
  by (induction ys) auto

lemma array_sort_key: "array_sort (\<lambda>a b. f a - f b) xs = sort_key f xs"
  by (induction xs) (simp_all add: array_sort_Nil array_sort_Cons insert_by_key)

lemma compareTodos_ties:
  "compareTodos rt SortOldest = (\<lambda>a b. 0)" "compareTodos rt SortNewest = (\<lambda>a b. 0)"
  by (simp_all add: compareTodos_def fun_eq_iff)

lemma compareTodos_priority:
  "compareTodos rt SortPriority =
     (\<lambda>a b. priorityOrder (todo_priority a) - priorityOrder (todo_priority b))"
  by (simp add: compareTodos_def fun_eq_iff)

lemma sortedTodos_priority:
  "sortedTodos rt SortPriority xs = sort_key (\<lambda>t. priorityOrder (todo_priority t)) xs"
  by (simp add: sortedTodos_def compareTodos_priority array_sort_key)

lemma priorityOrder_le:
  "priorityOrder p \<le> priorityOrder q \<longleftrightarrow>
     (p, q) \<notin> {(Medium, High), (Low, High), (Low, Medium)}"
  by (cases p; cases q) (simp_all add: priorityOrder_def)

lemma priorityOrder_inj: "priorityOrder p = priorityOrder q \<longleftrightarrow> p = q"
  by (cases p; cases q) (simp_all add: priorityOrder_def)

lemma mset_sortedTodos: "mset (sortedTodos rt sortBy xs) = mset xs"
  by (simp add: sortedTodos_def Let_def mset_array_sort)

lemma sortedTodos_single:
  assumes "sortedTodos rt sortBy xs = [t]"
  shows "xs = [t]"
proof -
  from assms have "mset xs = {#t#}"
    using mset_sortedTodos [of rt sortBy xs] by simp
  then show ?thesis by (simp add: mset_single_iff_right)
qed

text \<open>
  C7. Whatever the filters, the sort \<^verbatim>\<open>oldest\<close> returns the filtered snapshot as it is
  and the sort \<^verbatim>\<open>newest\<close> returns it reversed.
\<close>

theorem sort_oldest_newest:
  "filteredAndSortedTodos rt todoList flt searchQuery SortOldest categoryFilter
     = filteredTodos rt todoList flt searchQuery categoryFilter \<and>
   filteredAndSortedTodos rt todoList flt searchQuery SortNewest categoryFilter
     = rev (filteredTodos rt todoList flt searchQuery categoryFilter)"
  by (simp add: filteredAndSortedTodos_def sortedTodos_def compareTodos_ties array_sort_ties)

text \<open>
  C6. In the result of the sort \<^verbatim>\<open>priority\<close> no medium task stands before a high one
  and no low task before a high or a medium one; the tasks of each priority stand in
  the order they have in the filtered snapshot; and with no search and no other filter
  the snapshot \<open>[a, b, c]\<close> of a high, a medium and a high task sorts to \<open>[a, c, b]\<close>.
\<close>

theorem sort_priority:
  "(\<forall>i j. i < j \<longrightarrow>
      j < length (filteredAndSortedTodos rt todoList flt searchQuery SortPriority categoryFilter) \<longrightarrow>
      (todo_priority
         (filteredAndSortedTodos rt todoList flt searchQuery SortPriority categoryFilter ! i),
       todo_priority
         (filteredAndSortedTodos rt todoList flt searchQuery SortPriority categoryFilter ! j))
      \<notin> {(Medium, High), (Low, High), (Low, Medium)}) \<and>
   (\<forall>p. filter (\<lambda>t. todo_priority t = p)
          (filteredAndSortedTodos rt todoList flt searchQuery SortPriority categoryFilter)
        = filter (\<lambda>t. todo_priority t = p)
            (filteredTodos rt todoList flt searchQuery categoryFilter)) \<and>
   (trim rt searchQuery = [] \<longrightarrow> todo_priority a = High \<longrightarrow> todo_priority b = Medium \<longrightarrow>
    todo_priority c = High \<longrightarrow>
    filteredAndSortedTodos rt [a, b, c] FilterAll searchQuery SortPriority ''all'' = [a, c, b])"
proof -
  let ?f = "\<lambda>t. priorityOrder (todo_priority t)"
  let ?xs = "filteredTodos rt todoList flt searchQuery categoryFilter"
  let ?ys = "filteredAndSortedTodos rt todoList flt searchQuery SortPriority categoryFilter"
  have ys: "?ys = sort_key ?f ?xs"
    by (simp add: filteredAndSortedTodos_def sortedTodos_priority)
  have "sorted (map ?f ?ys)"
    unfolding ys by (rule sorted_sort_key)
  then have ranked: "\<forall>i j. i < j \<longrightarrow> j < length ?ys \<longrightarrow> ?f (?ys ! i) \<le> ?f (?ys ! j)"
    by (auto simp: sorted_iff_nth_mono)
  have order: "\<forall>i j. i < j \<longrightarrow> j < length ?ys \<longrightarrow>
      (todo_priority (?ys ! i), todo_priority (?ys ! j))
        \<notin> {(Medium, High), (Low, High), (Low, Medium)}"
    using ranked unfolding priorityOrder_le by blast
  have stable: "\<forall>p. filter (\<lambda>t. todo_priority t = p) ?ys = filter (\<lambda>t. todo_priority t = p) ?xs"
  proof
    fix p
    have "filter (\<lambda>t. ?f t = priorityOrder p) (sort_key ?f ?xs)
            = filter (\<lambda>t. ?f t = priorityOrder p) ?xs"
      by (rule sort_key_stable)
    then show "filter (\<lambda>t. todo_priority t = p) ?ys = filter (\<lambda>t. todo_priority t = p) ?xs"
      by (simp add: ys priorityOrder_inj)
  qed
  have example: "trim rt searchQuery = [] \<longrightarrow> todo_priority a = High \<longrightarrow>
      todo_priority b = Medium \<longrightarrow> todo_priority c = High \<longrightarrow>
      filteredAndSortedTodos rt [a, b, c] FilterAll searchQuery SortPriority ''all'' = [a, c, b]"
    by (simp add: filteredAndSortedTodos_def filteredTodos_def statusFiltered_def
          searchFiltered_def categoryFiltered_def sortedTodos_priority priorityOrder_def)
  from order stable example show ?thesis by blast
qed

theorem sort_priority_witness:
  "trim lowerAsciiRuntime '''' = [] \<and> todo_priority taskA = High \<and>
   todo_priority taskB = Medium \<and> todo_priority taskC = High \<and>
   filteredAndSortedTodos lowerAsciiRuntime [taskA, taskB, taskC] FilterAll '''' SortPriority
     ''all'' = [taskA, taskC, taskB]"
proof -
  have h: "trim lowerAsciiRuntime '''' = []" "todo_priority taskA = High"
    "todo_priority taskB = Medium" "todo_priority taskC = High"
    by (simp_all add: lowerAsciiRuntime_def taskA_def taskB_def taskC_def)
  show ?thesis
    using h sort_priority [of lowerAsciiRuntime "[taskA, taskB, taskC]" FilterAll "''''"
        "''all''" taskA taskB taskC]
    by simp
qed

section \<open>An update and the order of the snapshot\<close>

lemma sortedTodos_oldest: "sortedTodos rt SortOldest xs = xs"
  by (simp add: sortedTodos_def compareTodos_ties array_sort_ties)

lemma sortedTodos_newest: "sortedTodos rt SortNewest xs = rev xs"
  by (simp add: sortedTodos_def compareTodos_ties array_sort_ties)

lemma subseq_reversed: "subseq xs ys \<Longrightarrow> subseq (rev xs) (rev ys)"
  by (induction rule: list_emb.induct) (auto intro: subseq_rev_drop_many list_emb_append_mono)

lemma subseq_filteredTodos: "subseq (filteredTodos rt xs flt q c) xs"
proof -
  have a: "subseq (statusFiltered flt xs) xs"
    by (simp add: statusFiltered_def)
  have b: "subseq (searchFiltered rt q ys) ys" for ys
    by (simp add: searchFiltered_def Let_def)
  have c: "subseq (categoryFiltered c ys) ys" for ys
    by (simp add: categoryFiltered_def)
  from c b a show ?thesis
    unfolding filteredTodos_def by (blast intro: subseq_order.order_trans)
qed

lemma snd_patchTodo:
  "snd (patchTodo k u s) = snd (updateTodo k (u\<lparr>upd_id := None\<rparr>) s)"
  by (simp add: patchTodo_def updateTodoSchema_safeParse_def split: prod.splits option.splits)

lemma updateTodo_ids:
  "upd_id u = None \<Longrightarrow>
   map todo_id (getAllTodos (snd (updateTodo k u s))) = map todo_id (getAllTodos s)"
  by (auto simp: updateTodo_def Let_def getAllTodos_def map_set_ids spread_def
           split: option.splits)

lemma patchTodo_ids:
  "map todo_id (getAllTodos (snd (patchTodo k u s))) = map todo_id (getAllTodos s)"
  by (simp add: snd_patchTodo updateTodo_ids)

text \<open>
  C9. For every id \<open>k\<close>, every body \<open>u\<close> of an update request and every store, the
  sequence of the \<^verbatim>\<open>id\<close>s in the snapshot of \<open>getAllTodos\<close> is the same after the update
  as before. So with no filter set the view sorted \<^verbatim>\<open>oldest\<close> and the view sorted
  \<^verbatim>\<open>newest\<close> list the same ids at the same ranks after the update as before; and
  whatever the filters, the ids of the view after the update stand in the order of the
  snapshot before it (\<^verbatim>\<open>oldest\<close>) or in the reverse of that order (\<^verbatim>\<open>newest\<close>).
\<close>

theorem patchTodo_order:
  "map todo_id (getAllTodos (snd (patchTodo k u s))) = map todo_id (getAllTodos s) \<and>
   (trim rt q = [] \<longrightarrow>
      map todo_id (filteredAndSortedTodos rt (getAllTodos (snd (patchTodo k u s)))
                     FilterAll q SortOldest ''all'')
        = map todo_id (filteredAndSortedTodos rt (getAllTodos s) FilterAll q SortOldest ''all'') \<and>
      map todo_id (filteredAndSortedTodos rt (getAllTodos (snd (patchTodo k u s)))
                     FilterAll q SortNewest ''all'')
        = map todo_id (filteredAndSortedTodos rt (getAllTodos s) FilterAll q SortNewest ''all'')) \<and>
   subseq (map todo_id (filteredAndSortedTodos rt (getAllTodos (snd (patchTodo k u s)))
                          flt q SortOldest c))
          (map todo_id (getAllTodos s)) \<and>
   subseq (map todo_id (filteredAndSortedTodos rt (getAllTodos (snd (patchTodo k u s)))
                          flt q SortNewest c))
          (rev (map todo_id (getAllTodos s)))"
proof -
  let ?after = "getAllTodos (snd (patchTodo k u s))"
  have ids: "map todo_id ?after = map todo_id (getAllTodos s)"
    by (rule patchTodo_ids)
  have off: "filteredTodos rt xs FilterAll q ''all'' = xs" if "trim rt q = []" for xs
    using that
    by (simp add: filteredTodos_def statusFiltered_def searchFiltered_def categoryFiltered_def)
  have plain: "trim rt q = [] \<longrightarrow>
      map todo_id (filteredAndSortedTodos rt ?after FilterAll q SortOldest ''all'')
        = map todo_id (filteredAndSortedTodos rt (getAllTodos s) FilterAll q SortOldest ''all'') \<and>
      map todo_id (filteredAndSortedTodos rt ?after FilterAll q SortNewest ''all'')
        = map todo_id (filteredAndSortedTodos rt (getAllTodos s) FilterAll q SortNewest ''all'')"
    by (simp add: filteredAndSortedTodos_def off sortedTodos_oldest sortedTodos_newest ids
          flip: rev_map)
  have sub: "subseq (map todo_id (filteredTodos rt ?after flt q c)) (map todo_id (getAllTodos s))"
    using subseq_map [OF subseq_filteredTodos, of todo_id rt ?after flt q c]
    by (simp only: ids)
  have old: "subseq (map todo_id (filteredAndSortedTodos rt ?after flt q SortOldest c))
               (map todo_id (getAllTodos s))"
    using sub by (simp add: filteredAndSortedTodos_def sortedTodos_oldest)
  have new: "subseq (map todo_id (filteredAndSortedTodos rt ?after flt q SortNewest c))
               (rev (map todo_id (getAllTodos s)))"
    using subseq_reversed [OF sub]
    by (simp add: filteredAndSortedTodos_def sortedTodos_newest rev_map)
  from ids plain old new show ?thesis by blast
qed

theorem patchTodo_order_witness:
  "trim lowerAsciiRuntime '''' = [] \<and>
   map todo_id (getAllTodos twoTodos) = [''1'', ''2''] \<and>
   map todo_id (getAllTodos (snd (patchTodo ''1''
       \<lparr>upd_id = Some ''3'', upd_text = Some ''Buy oat milk'', upd_completed = Some True,
        upd_priority = Some Low, upd_category = None\<rparr> twoTodos))) = [''1'', ''2''] \<and>
   map todo_id (filteredAndSortedTodos lowerAsciiRuntime (getAllTodos (snd (patchTodo ''1''
       \<lparr>upd_id = Some ''3'', upd_text = Some ''Buy oat milk'', upd_completed = Some True,
        upd_priority = Some Low, upd_category = None\<rparr> twoTodos)))
       FilterAll '''' SortNewest ''all'') = [''2'', ''1'']"
proof -
  let ?u = "\<lparr>upd_id = Some ''3'', upd_text = Some ''Buy oat milk'', upd_completed = Some True,
             upd_priority = Some Low, upd_category = None\<rparr>"
  have h: "trim lowerAsciiRuntime '''' = []"
    by (simp add: lowerAsciiRuntime_def)
  have before: "map todo_id (getAllTodos twoTodos) = [''1'', ''2'']"
    by (simp add: getAllTodos_def map_values_def store_defs)
  have view: "map todo_id (filteredAndSortedTodos lowerAsciiRuntime (getAllTodos twoTodos)
                FilterAll '''' SortNewest ''all'') = [''2'', ''1'']"
    by (simp add: getAllTodos_def map_values_def store_defs query_defs)
  show ?thesis
    using h before view
      patchTodo_order [of "''1''" ?u twoTodos lowerAsciiRuntime "''''" FilterAll "''all''"]
    by simp
qed

section \<open>The category filter\<close>

text \<open>
  C10, as the code has it. The category filter \<open>''all''\<close> filters nothing: the result is
  the sorted outcome of the other two filters. Any other value \<open>v\<close> keeps exactly the
  tasks whose category is \<open>v\<close>. So, with the other two filters off, when the snapshot
  holds a task \<open>t\<close> of category \<open>''all''\<close> and at least one more task, no value of the
  category filter returns just \<open>t\<close>.
\<close>

theorem category_filter_all:
  "filteredAndSortedTodos rt todoList flt q sortBy ''all''
     = sortedTodos rt sortBy (searchFiltered rt q (statusFiltered flt todoList)) \<and>
   (v \<noteq> ''all'' \<longrightarrow>
      filteredAndSortedTodos rt todoList flt q sortBy v
        = sortedTodos rt sortBy
            (filter (\<lambda>t. todo_category t = Some v)
               (searchFiltered rt q (statusFiltered flt todoList)))) \<and>
   (trim rt q = [] \<longrightarrow> t \<in> set todoList \<longrightarrow> todo_category t = Some ''all'' \<longrightarrow>
      todoList \<noteq> [t] \<longrightarrow>
      filteredAndSortedTodos rt todoList FilterAll q sortBy v \<noteq> [t])"
proof -
  have a: "filteredAndSortedTodos rt todoList flt q sortBy ''all''
     = sortedTodos rt sortBy (searchFiltered rt q (statusFiltered flt todoList))"
    by (simp add: filteredAndSortedTodos_def filteredTodos_def categoryFiltered_def)
  have b: "filteredAndSortedTodos rt todoList flt q sortBy v
        = sortedTodos rt sortBy
            (filter (\<lambda>t. todo_category t = Some v)
               (searchFiltered rt q (statusFiltered flt todoList)))" if "v \<noteq> ''all''"
    using that by (simp add: filteredAndSortedTodos_def filteredTodos_def categoryFiltered_def)
  have c: "filteredAndSortedTodos rt todoList FilterAll q sortBy v \<noteq> [t]"
    if off: "trim rt q = []" and cat: "todo_category t = Some ''all''"
      and more: "todoList \<noteq> [t]"
  proof
    assume eq: "filteredAndSortedTodos rt todoList FilterAll q sortBy v = [t]"
    have pre: "searchFiltered rt q (statusFiltered FilterAll todoList) = todoList"
      using off by (simp add: searchFiltered_def statusFiltered_def)
    show False
    proof (cases "v = ''all''")
      case True
      with eq pre have "sortedTodos rt sortBy todoList = [t]"
        by (simp add: filteredAndSortedTodos_def filteredTodos_def categoryFiltered_def)
      then have "todoList = [t]" by (rule sortedTodos_single)
      with more show False by simp
    next
      case False
      with eq pre
      have "sortedTodos rt sortBy (filter (\<lambda>t. todo_category t = Some v) todoList) = [t]"
        by (simp add: filteredAndSortedTodos_def filteredTodos_def categoryFiltered_def)
      then have "filter (\<lambda>t. todo_category t = Some v) todoList = [t]"
        by (rule sortedTodos_single)
      then have "t \<in> set (filter (\<lambda>t. todo_category t = Some v) todoList)" by simp
      with cat False show False by simp
    qed
  qed
  from a b c show ?thesis by blast
qed

theorem category_filter_all_witness:
  "''home'' \<noteq> ''all'' \<and> trim lowerAsciiRuntime '''' = [] \<and>
   taskC \<in> set [taskA, taskB, taskC] \<and> todo_category taskC = Some ''all'' \<and>
   [taskA, taskB, taskC] \<noteq> [taskC] \<and>
   filteredAndSortedTodos lowerAsciiRuntime [taskA, taskB, taskC] FilterAll '''' SortOldest
     ''home'' = [taskB] \<and>
   filteredAndSortedTodos lowerAsciiRuntime [taskA, taskB, taskC] FilterAll '''' SortOldest
     ''home'' \<noteq> [taskC]"
proof -
  have h: "''home'' \<noteq> ''all''" "trim lowerAsciiRuntime '''' = []"
    "taskC \<in> set [taskA, taskB, taskC]" "todo_category taskC = Some ''all''"
    "[taskA, taskB, taskC] \<noteq> [taskC]"
    by (simp_all add: lowerAsciiRuntime_def taskA_def taskB_def taskC_def)
  have pre: "searchFiltered lowerAsciiRuntime '''' (statusFiltered FilterAll [taskA, taskB, taskC])
               = [taskA, taskB, taskC]"
    by (simp add: searchFiltered_def statusFiltered_def lowerAsciiRuntime_def)
  have kept: "filter (\<lambda>t. todo_category t = Some ''home'') [taskA, taskB, taskC] = [taskB]"
    by (simp add: taskA_def taskB_def taskC_def)
  have sorted: "sortedTodos lowerAsciiRuntime SortOldest [taskB] = [taskB]"
    by (simp add: sortedTodos_def array_sort_def)
  show ?thesis
    using h pre kept sorted
      category_filter_all [of lowerAsciiRuntime "[taskA, taskB, taskC]" FilterAll "''''"
        SortOldest "''home''" taskC]
    by (simp add: taskB_def taskC_def)
qed

text \<open>
  C10, as the claim states it, fails on the snapshot that holds only a task of category
  \<open>''all''\<close>: the category filter \<open>''all''\<close> returns just that task.
\<close>

theorem category_filter_counterexample:
  "todo_category taskC = Some ''all'' \<and>
   filteredAndSortedTodos lowerAsciiRuntime [taskC] FilterAll '''' SortNewest ''all'' = [taskC]"
  by (simp add: query_defs)

end
